theory Spec2Isabelle
  imports Complex_Main "HOL-Library.Log_Nat"
begin

section \<open>JavaScript values\<close>

text \<open>
  A JavaScript \<^verbatim>\<open>number\<close> is a double: \<^verbatim>\<open>NaN\<close>, or a finite value, which is a rational
  here. The infinities (a result beyond the largest double) and the negative zero are
  left out.
\<close>

datatype number = NaN | Num rat

text \<open>
  Rounding a rational to the nearest double, ties to the even significand. For
  \<open>x > 0\<close>, \<open>binary_exponent x\<close> is the \<open>e\<close> with \<open>2^e \<le> x < 2^(e + 1)\<close>; a double has
  53 significant bits, so the doubles around \<open>x\<close> are the multiples of \<open>2^(e - 52)\<close>, and
  below the smallest normal exponent \<open>- 1022\<close> the spacing stays that of the subnormal
  numbers.
\<close>

definition binary_exponent :: "rat \<Rightarrow> int" where
  "binary_exponent x =
     (case quotient_of x of
        (a, b) \<Rightarrow>
          let e0 = bitlen a - bitlen b
          in if 2 powi e0 \<le> x then e0 else e0 - 1)"

definition round_half_even :: "rat \<Rightarrow> int" where
  "round_half_even q =
     (let f = \<lfloor>q\<rfloor>; d = q - of_int f
      in if d < 1 / 2 then f
         else if 1 / 2 < d then f + 1
         else if even f then f else f + 1)"

definition round_double :: "rat \<Rightarrow> rat" where
  "round_double x =
     (if x = 0 then 0
      else
        let m = \<bar>x\<bar>;
            e = max (binary_exponent m) (- 1022);
            ulp = 2 powi (e - 52)
        in sgn x * (of_int (round_half_even (m / ulp)) * ulp))"

text \<open>Truthiness of a number: \<^verbatim>\<open>NaN\<close> and \<^verbatim>\<open>0\<close> are falsy.\<close>

fun num_truthy :: "number \<Rightarrow> bool" where
  "num_truthy NaN = False"
| "num_truthy (Num r) = (r \<noteq> 0)"

text \<open>\<^verbatim>\<open>a * b\<close>: the product, rounded to the nearest double.\<close>

fun num_mul :: "number \<Rightarrow> number \<Rightarrow> number" where
  "num_mul (Num a) (Num b) = Num (round_double (a * b))"
| "num_mul _ _ = NaN"

text \<open>
  \<^verbatim>\<open>a - b\<close>. The code subtracts only in \<^verbatim>\<open>x - 1\<close>, on a remaining time \<open>x\<close>; for a
  double \<open>x\<close> from 1 up to \<open>2^53\<close> the difference is a double, so no rounding is applied,
  and for \<open>x\<close> below 1 only the sign of the difference is read, which rounding keeps.
\<close>

fun num_sub :: "number \<Rightarrow> number \<Rightarrow> number" where
  "num_sub (Num a) (Num b) = Num (a - b)"
| "num_sub _ _ = NaN"

text \<open>\<^verbatim>\<open>a <= b\<close>: every comparison with \<^verbatim>\<open>NaN\<close> is false.\<close>

fun num_le :: "number \<Rightarrow> number \<Rightarrow> bool" where
  "num_le (Num a) (Num b) = (a \<le> b)"
| "num_le _ _ = False"

fun Math_ceil :: "number \<Rightarrow> number" where
  "Math_ceil NaN = NaN"
| "Math_ceil (Num r) = Num (of_int \<lceil>r\<rceil>)"

text \<open>
  The values \<^verbatim>\<open>JSON.parse\<close> can return, and \<^verbatim>\<open>undefined\<close> for a property that is
  not there. An object is the list of its properties.
\<close>

datatype jsval =
    JUndefined
  | JNull
  | JBool bool
  | JNumber number
  | JString string
  | JArray "jsval list"
  | JObject "(string \<times> jsval) list"

fun truthy :: "jsval \<Rightarrow> bool" where
  "truthy JUndefined = False"
| "truthy JNull = False"
| "truthy (JBool b) = b"
| "truthy (JNumber n) = num_truthy n"
| "truthy (JString s) = (s \<noteq> [])"
| "truthy (JArray _) = True"
| "truthy (JObject _) = True"

text \<open>\<^verbatim>\<open>a || b\<close>\<close>

definition js_or :: "jsval \<Rightarrow> jsval \<Rightarrow> jsval" where
  "js_or a b = (if truthy a then a else b)"

text \<open>What a \<^verbatim>\<open>try\<close> block can throw here.\<close>

datatype exn = SyntaxError | TypeError | APIError

text \<open>
  \<^verbatim>\<open>v.key\<close> for a key that is no built-in property (\<^verbatim>\<open>realTime\<close>, \<^verbatim>\<open>explanation\<close>):
  reading a property of \<^verbatim>\<open>null\<close> or \<^verbatim>\<open>undefined\<close> throws a TypeError, a primitive or an
  array has no such property, an object gives the property or \<^verbatim>\<open>undefined\<close>.
\<close>

fun get_prop :: "jsval \<Rightarrow> string \<Rightarrow> exn + jsval" where
  "get_prop JUndefined key = Inl TypeError"
| "get_prop JNull key = Inl TypeError"
| "get_prop (JObject props) key =
     Inr (case map_of props key of None \<Rightarrow> JUndefined | Some v \<Rightarrow> v)"
| "get_prop _ key = Inr JUndefined"

section \<open>The estimation service: \<^verbatim>\<open>calculateRealTime\<close>\<close>

text \<open>
  The reply of \<^verbatim>\<open>openai.chat.completions.create\<close> as far as the code reads it:
  \<^verbatim>\<open>response.choices[0].message.content\<close>, where the content may be \<^verbatim>\<open>null\<close>.
\<close>

record message =
  content :: "string option"

record choice =
  message :: message

record completion =
  choices :: "choice list"

text \<open>
  What \<^verbatim>\<open>calculateRealTime\<close> resolves to. The interface \<^verbatim>\<open>TimeCalculationResult\<close>
  declares a number and a string, but the fields hold whatever the decoded reply had,
  so they are values of any kind here.
\<close>

record TimeCalculationResult =
  result_realTime :: jsval
  result_explanation :: jsval

text \<open>
  The two fixed explanation texts. The source's literals are Japanese sentences; these
  are their renderings: the text of lines 49 and 56 (time was allotted generously for
  unexpected interruptions and work), and the text of line 63 (an API error occurred,
  so the basic 20 percent increase was applied).
\<close>

definition OVERHEAD_EXPLANATION :: string where
  "OVERHEAD_EXPLANATION =
     ''Allowing for unexpected interruptions and work, a generous time was set.''"

definition API_ERROR_EXPLANATION :: string where
  "API_ERROR_EXPLANATION =
     ''An API error occurred, so the basic 20% increase was applied.''"

text \<open>
  \<^verbatim>\<open>Math.ceil(estimatedTime * 1.2)\<close>; the literal \<^verbatim>\<open>1.2\<close> is the double nearest to
  \<open>12 / 10\<close>.
\<close>

definition fallbackRealTime :: "number \<Rightarrow> number" where
  "fallbackRealTime estimatedTime =
     Math_ceil (num_mul estimatedTime (Num (round_double (12 / 10))))"

text \<open>
  The inner \<^verbatim>\<open>try\<close> block (lines 44 to 50). \<^verbatim>\<open>JSON.parse\<close> is the runtime's decoder, a
  parameter here: \<open>None\<close> when it throws a SyntaxError.
\<close>

definition inner_try ::
  "(string \<Rightarrow> jsval option) \<Rightarrow> string \<Rightarrow> number \<Rightarrow> exn + TimeCalculationResult" where
  "inner_try JSON_parse content_text estimatedTime =
     (case JSON_parse content_text of
        None \<Rightarrow> Inl SyntaxError
      | Some result \<Rightarrow>
          (case get_prop result ''realTime'' of
             Inl e \<Rightarrow> Inl e
           | Inr rt \<Rightarrow>
               (case get_prop result ''explanation'' of
                  Inl e \<Rightarrow> Inl e
                | Inr ex \<Rightarrow>
                    Inr \<lparr>result_realTime = js_or rt (JNumber (fallbackRealTime estimatedTime)),
                         result_explanation = js_or ex (JString OVERHEAD_EXPLANATION)\<rparr>)))"

text \<open>
  \<^verbatim>\<open>choice.message.content || ""\<close> (line 42): a \<^verbatim>\<open>null\<close> content becomes the empty string.
\<close>

definition content_or_empty :: "choice \<Rightarrow> string" where
  "content_or_empty c = (case content (message c) of None \<Rightarrow> [] | Some str \<Rightarrow> str)"

text \<open>
  The outer \<^verbatim>\<open>try\<close> block (lines 18 to 58). The awaited call throws or gives a reply;
  \<^verbatim>\<open>choices[0]\<close> of an empty list is \<^verbatim>\<open>undefined\<close>, whose \<^verbatim>\<open>.message\<close> throws;
  whatever the inner block throws is caught by the inner \<^verbatim>\<open>catch\<close> (lines 51 to 58).
\<close>

definition outer_try ::
  "(string \<Rightarrow> jsval option) \<Rightarrow> (exn + completion) \<Rightarrow> number \<Rightarrow> exn + TimeCalculationResult" where
  "outer_try JSON_parse reply estimatedTime =
     (case reply of
        Inl e \<Rightarrow> Inl e
      | Inr response \<Rightarrow>
          (case choices response of
             [] \<Rightarrow> Inl TypeError
           | c # _ \<Rightarrow>
               (case inner_try JSON_parse (content_or_empty c) estimatedTime of
                  Inl parseError \<Rightarrow>
                    Inr \<lparr>result_realTime = JNumber (fallbackRealTime estimatedTime),
                         result_explanation = JString OVERHEAD_EXPLANATION\<rparr>
                | Inr r \<Rightarrow> Inr r)))"

text \<open>
  \<^verbatim>\<open>calculateRealTime\<close> (lines 13 to 66). The collaborator \<open>create\<close> answers the request
  built from the task name and the estimated time. \<open>Inl\<close> would be a rejected promise.
\<close>

definition calculateRealTime ::
  "(string \<Rightarrow> jsval option) \<Rightarrow> (string \<Rightarrow> number \<Rightarrow> exn + completion) \<Rightarrow>
     string \<Rightarrow> number \<Rightarrow> exn + TimeCalculationResult" where
  "calculateRealTime JSON_parse create taskName estimatedTime =
     (case outer_try JSON_parse (create taskName estimatedTime) estimatedTime of
        Inl error \<Rightarrow>
          Inr \<lparr>result_realTime = JNumber (fallbackRealTime estimatedTime),
               result_explanation = JString API_ERROR_EXPLANATION\<rparr>
      | Inr r \<Rightarrow> Inr r)"

section \<open>Strings: \<^verbatim>\<open>trim\<close> and \<^verbatim>\<open>parseInt\<close>\<close>

text \<open>
  A string is the list of the bytes of its UTF-8 encoding. \<open>white_space\<close> lists the
  encodings of the code points that \<^verbatim>\<open>trim\<close> and \<^verbatim>\<open>parseInt\<close> skip, the white space and
  the line terminators of the language: U+0009 to U+000D, U+0020, U+00A0, U+1680,
  U+2000 to U+200A, U+2028, U+2029, U+202F, U+205F, U+3000 and U+FEFF.
\<close>

definition white_space :: "string list" where
  "white_space =
     [[CHR 0x09], [CHR 0x0A], [CHR 0x0B], [CHR 0x0C], [CHR 0x0D], [CHR 0x20],
      [CHR 0xC2, CHR 0xA0],
      [CHR 0xE1, CHR 0x9A, CHR 0x80],
      [CHR 0xE2, CHR 0x80, CHR 0x80], [CHR 0xE2, CHR 0x80, CHR 0x81],
      [CHR 0xE2, CHR 0x80, CHR 0x82], [CHR 0xE2, CHR 0x80, CHR 0x83],
      [CHR 0xE2, CHR 0x80, CHR 0x84], [CHR 0xE2, CHR 0x80, CHR 0x85],
      [CHR 0xE2, CHR 0x80, CHR 0x86], [CHR 0xE2, CHR 0x80, CHR 0x87],
      [CHR 0xE2, CHR 0x80, CHR 0x88], [CHR 0xE2, CHR 0x80, CHR 0x89],
      [CHR 0xE2, CHR 0x80, CHR 0x8A],
      [CHR 0xE2, CHR 0x80, CHR 0xA8], [CHR 0xE2, CHR 0x80, CHR 0xA9],
      [CHR 0xE2, CHR 0x80, CHR 0xAF],
      [CHR 0xE2, CHR 0x81, CHR 0x9F],
      [CHR 0xE3, CHR 0x80, CHR 0x80],
      [CHR 0xEF, CHR 0xBB, CHR 0xBF]]"

text \<open>Removing from the front of \<open>s\<close> every leading occurrence of one of the words \<open>ws\<close>.\<close>

function strip :: "string list \<Rightarrow> string \<Rightarrow> string" where
  "strip ws s =
     (case find (\<lambda>w. w \<noteq> [] \<and> take (length w) s = w) ws of
        None \<Rightarrow> s
      | Some w \<Rightarrow> strip ws (drop (length w) s))"
  by pat_completeness auto
termination
proof (relation "measure (\<lambda>(ws, s). length s)")
  show "wf (measure (\<lambda>(ws, s). length s))"
    by simp
next
  fix ws :: "string list" and s w :: string
  assume "find (\<lambda>w. w \<noteq> [] \<and> take (length w) s = w) ws = Some w"
  then have "w \<noteq> []" and "take (length w) s = w"
    by (auto simp: find_Some_iff)
  then have "0 < length w" and "length w = min (length w) (length s)"
    by (simp, metis length_take min.commute)
  then have "length s - length w < length s"
    by linarith
  then show "((ws, drop (length w) s), (ws, s)) \<in> measure (\<lambda>(ws, s). length s)"
    by simp
qed

text \<open>
  \<^verbatim>\<open>str.trim()\<close>: white space is removed at both ends. At the end the encodings are
  matched backwards; a code point's encoding starts with a byte that occurs nowhere
  else in an encoding, so this removes whole code points only.
\<close>

definition trim :: "string \<Rightarrow> string" where
  "trim str = rev (strip (map rev white_space) (rev (strip white_space str)))"

text \<open>The value of a digit in radix 10 or 16; 36 for a character that is no digit.\<close>

definition digit_value :: "char \<Rightarrow> nat" where
  "digit_value c =
     (let k = (of_char c :: nat) in
      if 48 \<le> k \<and> k \<le> 57 then k - 48
      else if 97 \<le> k \<and> k \<le> 102 then k - 87
      else if 65 \<le> k \<and> k \<le> 70 then k - 55
      else 36)"

text \<open>
  \<^verbatim>\<open>parseInt(str)\<close> with no radix: leading white space and one sign are skipped, a prefix
  \<^verbatim>\<open>0x\<close> or \<^verbatim>\<open>0X\<close> selects radix 16, the longest run of digits is read and the rest is
  ignored; with no digit the result is \<^verbatim>\<open>NaN\<close>, and otherwise the double nearest to the
  integer read.
\<close>

definition parseInt :: "string \<Rightarrow> number" where
  "parseInt str =
     (let s = strip white_space str;
          negative = (take 1 s = ''-'');
          s1 = (if take 1 s = ''+'' \<or> take 1 s = ''-'' then drop 1 s else s);
          hex = (take 2 s1 = ''0x'' \<or> take 2 s1 = ''0X'');
          radix = (if hex then 16 else 10);
          s2 = (if hex then drop 2 s1 else s1);
          digits = takeWhile (\<lambda>c. digit_value c < radix) s2;
          magnitude = foldl (\<lambda>acc c. acc * int radix + int (digit_value c)) 0 digits
      in if digits = [] then NaN
         else Num (round_double (of_int (if negative then - magnitude else magnitude))))"

section \<open>The task list and timer controller: \<^verbatim>\<open>TaskInputScreen\<close>\<close>

text \<open>
  The component is a function of its state: a handler reads the state variables of the
  latest render, and the values it sets take effect together when it returns. So a
  handler is a function from the state before to the state after. The callback of a
  timer is different: it reads \<^verbatim>\<open>tasks\<close> and its own handle from the closure that
  \<^verbatim>\<open>startTimer\<close> created, and the active task through the updater of
  \<^verbatim>\<open>setActiveTask\<close>, which receives the current one.
\<close>

text \<open>
  The interface \<^verbatim>\<open>Task\<close> (lines 15 to 23). The field \<^verbatim>\<open>id\<close> is \<open>task_id\<close> here. An optional
  field that is absent or \<^verbatim>\<open>undefined\<close> is \<open>None\<close>.
\<close>

record Task =
  task_id :: string
  name :: string
  estimatedTime :: number
  realTime :: number
  isRunning :: "bool option"
  isPaused :: "bool option"
  remainingTime :: "number option"

text \<open>
  The controller reads the awaited result of \<^verbatim>\<open>calculateRealTime\<close> at its declared type:
  a number and a string.
\<close>

record estimate =
  est_realTime :: number
  est_explanation :: string

text \<open>The calls of \<^verbatim>\<open>Alert.alert\<close>, by what they tell the user.\<close>

datatype alert =
    LoadFailed
  | SaveFailed
  | InputMissing
  | EstimatePrompt number number string
  | AlreadyRunning
  | Completed string

text \<open>
  The component's state (lines 28 to 33; \<open>estimatedTimeText\<close> is the state variable
  \<^verbatim>\<open>estimatedTime\<close>, the text of the input field), followed by what lies outside the
  component: the repeating timers that are alive, each with its handle and with the value
  of \<^verbatim>\<open>tasks\<close> its callback closed over when \<^verbatim>\<open>startTimer\<close> created it; the next handle
  \<^verbatim>\<open>setInterval\<close> gives out; the alerts shown so far; the list stored under the storage
  key, if any; and the calls made to the estimation service.
\<close>

record state =
  taskName :: string
  estimatedTimeText :: string
  tasks :: "Task list"
  editingTask :: "Task option"
  activeTask :: "Task option"
  timer :: "nat option"
  intervals :: "(nat \<times> Task list) list"
  nextInterval :: nat
  alerts :: "alert list"
  storage :: "Task list option"
  estimateCalls :: "(string \<times> number) list"

definition initial :: "Task list option \<Rightarrow> state" where
  "initial stored =
     \<lparr>taskName = [], estimatedTimeText = [], tasks = [], editingTask = None,
      activeTask = None, timer = None, intervals = [], nextInterval = 1, alerts = [],
      storage = stored, estimateCalls = []\<rparr>"

definition show_alert :: "alert \<Rightarrow> state \<Rightarrow> state" where
  "show_alert a s = s\<lparr>alerts := alerts s @ [a]\<rparr>"

text \<open>\<^verbatim>\<open>clearInterval(h)\<close>: the timer with handle \<open>h\<close> stops; any other handle does nothing.\<close>

definition clearInterval :: "nat \<Rightarrow> state \<Rightarrow> state" where
  "clearInterval h s = s\<lparr>intervals := filter (\<lambda>(h', closed_over). h' \<noteq> h) (intervals s)\<rparr>"

text \<open>\<^verbatim>\<open>loadTasks\<close> (lines 44 to 53); \<open>read_ok\<close> is false when reading or decoding throws.\<close>

definition loadTasks :: "bool \<Rightarrow> state \<Rightarrow> state" where
  "loadTasks read_ok s =
     (if \<not> read_ok then show_alert LoadFailed s
      else case storage s of None \<Rightarrow> s | Some savedTasks \<Rightarrow> s\<lparr>tasks := savedTasks\<rparr>)"

text \<open>\<^verbatim>\<open>saveTasks\<close> (lines 55 to 61); \<open>write_ok\<close> is false when the write throws.\<close>

definition saveTasks :: "bool \<Rightarrow> Task list \<Rightarrow> state \<Rightarrow> state" where
  "saveTasks write_ok updatedTasks s =
     (if write_ok then s\<lparr>storage := Some updatedTasks\<rparr> else show_alert SaveFailed s)"

text \<open>
  \<^verbatim>\<open>handleAddTask\<close> up to the confirmation prompt (lines 63 to 75). \<open>result\<close> is what the
  estimation service resolves with. The prompt's add button keeps the values the handler
  saw: they are returned as the pending commit.
\<close>

record pending =
  p_tasks :: "Task list"
  p_editingTask :: "Task option"
  p_taskName :: string
  p_estimatedMinutes :: number
  p_result :: estimate

definition handleAddTask :: "estimate \<Rightarrow> state \<Rightarrow> state \<times> pending option" where
  "handleAddTask result s =
     (if trim (taskName s) = [] \<or> trim (estimatedTimeText s) = []
      then (show_alert InputMissing s, None)
      else
        let estimatedMinutes = parseInt (estimatedTimeText s)
        in (show_alert (EstimatePrompt estimatedMinutes (est_realTime result) (est_explanation result))
              (s\<lparr>estimateCalls := estimateCalls s @ [(taskName s, estimatedMinutes)]\<rparr>),
            Some \<lparr>p_tasks = tasks s, p_editingTask = editingTask s, p_taskName = taskName s,
                  p_estimatedMinutes = estimatedMinutes, p_result = result\<rparr>))"

text \<open>
  The add button of the prompt (lines 82 to 110). \<open>now\<close> is \<^verbatim>\<open>Date.now().toString()\<close>.
\<close>

definition onPress_add :: "pending \<Rightarrow> string \<Rightarrow> bool \<Rightarrow> state \<Rightarrow> state" where
  "onPress_add p now write_ok s =
     (let updatedTasks =
            (case p_editingTask p of
               Some editing \<Rightarrow>
                 map (\<lambda>task. if task_id task = task_id editing
                             then task\<lparr>name := trim (p_taskName p),
                                       estimatedTime := p_estimatedMinutes p,
                                       realTime := est_realTime (p_result p)\<rparr>
                             else task) (p_tasks p)
             | None \<Rightarrow>
                 p_tasks p @
                   [\<lparr>task_id = now, name = trim (p_taskName p),
                     estimatedTime = p_estimatedMinutes p,
                     realTime = est_realTime (p_result p),
                     isRunning = None, isPaused = None, remainingTime = None\<rparr>])
      in saveTasks write_ok updatedTasks
           (s\<lparr>tasks := updatedTasks, taskName := [], estimatedTimeText := [],
              editingTask := None\<rparr>))"

text \<open>
  \<^verbatim>\<open>handleEditTask\<close> (lines 116 to 120); \<open>toString\<close> is the runtime's printing of a number.
\<close>

definition handleEditTask :: "(number \<Rightarrow> string) \<Rightarrow> Task \<Rightarrow> state \<Rightarrow> state" where
  "handleEditTask toString task s =
     s\<lparr>editingTask := Some task, taskName := name task,
       estimatedTimeText := toString (estimatedTime task)\<rparr>"

definition handleCancelEdit :: "state \<Rightarrow> state" where
  "handleCancelEdit s = s\<lparr>editingTask := None, taskName := [], estimatedTimeText := []\<rparr>"

text \<open>\<^verbatim>\<open>handleDeleteTask\<close> (lines 128 to 132)\<close>

definition handleDeleteTask :: "string \<Rightarrow> bool \<Rightarrow> state \<Rightarrow> state" where
  "handleDeleteTask taskId write_ok s =
     (let updatedTasks = filter (\<lambda>task. task_id task \<noteq> taskId) (tasks s)
      in saveTasks write_ok updatedTasks (s\<lparr>tasks := updatedTasks\<rparr>))"

text \<open>\<^verbatim>\<open>task.remainingTime || fallback\<close>: an absent, \<^verbatim>\<open>NaN\<close> or zero value is falsy.\<close>

definition remaining_or :: "number option \<Rightarrow> number \<Rightarrow> number" where
  "remaining_or r fallback =
     (case r of None \<Rightarrow> fallback | Some x \<Rightarrow> if num_truthy x then x else fallback)"

text \<open>
  \<^verbatim>\<open>startTimer\<close> (lines 134 to 169); \<open>another_active\<close> is the guard
  \<^verbatim>\<open>activeTask && activeTask.id !== task.id\<close>. A handle \<^verbatim>\<open>setInterval\<close> returns is truthy. The new
  timer's callback closes over \<^verbatim>\<open>tasks\<close> as the handler saw it, before the update.
\<close>

definition another_active :: "Task \<Rightarrow> state \<Rightarrow> bool" where
  "another_active task s =
     (case activeTask s of None \<Rightarrow> False | Some active \<Rightarrow> task_id active \<noteq> task_id task)"

definition startTimer :: "Task \<Rightarrow> state \<Rightarrow> state" where
  "startTimer task s =
     (if another_active task s
      then show_alert AlreadyRunning s
      else
        let updatedTask =
              task\<lparr>isRunning := Some True, isPaused := Some False,
                   remainingTime :=
                     Some (remaining_or (remainingTime task) (num_mul (realTime task) (Num 60)))\<rparr>;
            intervalId = nextInterval s
        in s\<lparr>activeTask := Some updatedTask,
              tasks := map (\<lambda>t. if task_id t = task_id task then updatedTask else t) (tasks s),
              intervals := intervals s @ [(intervalId, tasks s)],
              nextInterval := intervalId + 1,
              timer := Some intervalId\<rparr>)"

text \<open>
  One firing of the callback of the timer with handle \<open>intervalId\<close> (lines 150 to 166);
  a timer that is not alive does not fire.
\<close>

definition tick :: "nat \<Rightarrow> state \<Rightarrow> state" where
  "tick intervalId s =
     (case map_of (intervals s) intervalId of
        None \<Rightarrow> s
      | Some closed_over \<Rightarrow>
          (case activeTask s of
             None \<Rightarrow> s
           | Some current \<Rightarrow>
               if isPaused current = Some True then s
               else
                 let newRemainingTime =
                       num_sub (remaining_or (remainingTime current) (Num 0)) (Num 1)
                 in if num_le newRemainingTime (Num 0)
                    then (show_alert (Completed (name current)) (clearInterval intervalId s))
                           \<lparr>timer := None, activeTask := None\<rparr>
                    else
                      let updatedTask = current\<lparr>remainingTime := Some newRemainingTime\<rparr>
                      in s\<lparr>tasks := map (\<lambda>t. if task_id t = task_id updatedTask
                                                then updatedTask else t) closed_over,
                            activeTask := Some updatedTask\<rparr>))"

text \<open>The first statement of \<^verbatim>\<open>pauseTimer\<close> and of \<^verbatim>\<open>resetTimer\<close>: \<^verbatim>\<open>if (timer) ...\<close>\<close>

definition stop_timer :: "state \<Rightarrow> state" where
  "stop_timer s =
     (case timer s of None \<Rightarrow> s | Some h \<Rightarrow> (clearInterval h s)\<lparr>timer := None\<rparr>)"

text \<open>\<^verbatim>\<open>pauseTimer\<close> (lines 171 to 181)\<close>

definition pauseTimer :: "state \<Rightarrow> state" where
  "pauseTimer s =
     (let s1 = stop_timer s
      in case activeTask s of
           None \<Rightarrow> s1
         | Some active \<Rightarrow>
             let updatedTask = active\<lparr>isRunning := Some True, isPaused := Some True\<rparr>
             in s1\<lparr>tasks := map (\<lambda>t. if task_id t = task_id active then updatedTask else t)
                              (tasks s),
                    activeTask := Some updatedTask\<rparr>)"

text \<open>\<^verbatim>\<open>resetTimer\<close> (lines 183 to 198)\<close>

definition resetTimer :: "state \<Rightarrow> state" where
  "resetTimer s =
     (let s1 = stop_timer s
      in case activeTask s of
           None \<Rightarrow> s1
         | Some active \<Rightarrow>
             let updatedTask =
                   active\<lparr>isRunning := Some False, isPaused := Some False, remainingTime := None\<rparr>
             in s1\<lparr>tasks := map (\<lambda>t. if task_id t = task_id active then updatedTask else t)
                              (tasks s),
                    activeTask := None\<rparr>)"

section \<open>Sequences of events\<close>

text \<open>
  What can happen to the component: the load on mount, typing into the two input fields,
  the buttons, and a firing of a timer. \<open>ConfirmAdd\<close> is the add button of a confirmation
  prompt, with the values that prompt kept.
\<close>

datatype event =
    Load bool
  | SetTaskName string
  | SetEstimatedTime string
  | PressAdd estimate
  | ConfirmAdd pending string bool
  | EditTask Task
  | CancelEdit
  | DeleteTask string bool
  | StartTimer Task
  | PauseTimer
  | ResetTimer
  | Tick nat

fun step :: "(number \<Rightarrow> string) \<Rightarrow> event \<Rightarrow> state \<Rightarrow> state" where
  "step toString (Load read_ok) s = loadTasks read_ok s"
| "step toString (SetTaskName str) s = s\<lparr>taskName := str\<rparr>"
| "step toString (SetEstimatedTime str) s = s\<lparr>estimatedTimeText := str\<rparr>"
| "step toString (PressAdd result) s = fst (handleAddTask result s)"
| "step toString (ConfirmAdd p now write_ok) s = onPress_add p now write_ok s"
| "step toString (EditTask task) s = handleEditTask toString task s"
| "step toString CancelEdit s = handleCancelEdit s"
| "step toString (DeleteTask taskId write_ok) s = handleDeleteTask taskId write_ok s"
| "step toString (StartTimer task) s = startTimer task s"
| "step toString PauseTimer s = pauseTimer s"
| "step toString ResetTimer s = resetTimer s"
| "step toString (Tick h) s = tick h s"

fun run :: "(number \<Rightarrow> string) \<Rightarrow> event list \<Rightarrow> state \<Rightarrow> state" where
  "run toString [] s = s"
| "run toString (e # es) s = run toString es (step toString e s)"

text \<open>
  The event is \<^verbatim>\<open>startTimer\<close> on the active task while that task is running and not
  paused.
\<close>

fun restarts_running :: "event \<Rightarrow> state \<Rightarrow> bool" where
  "restarts_running (StartTimer task) s =
     (case activeTask s of
        None \<Rightarrow> False
      | Some active \<Rightarrow> task_id active = task_id task \<and> isPaused active \<noteq> Some True)"
| "restarts_running _ s = False"

text \<open>A sequence of events none of which restarts the running task.\<close>

fun never_restarts :: "(number \<Rightarrow> string) \<Rightarrow> event list \<Rightarrow> state \<Rightarrow> bool" where
  "never_restarts toString [] s = True"
| "never_restarts toString (e # es) s =
     (\<not> restarts_running e s \<and> never_restarts toString es (step toString e s))"

section \<open>Notions used to state the properties\<close>

text \<open>The property \<open>key\<close> of a decoded value, \<^verbatim>\<open>undefined\<close> when there is none.\<close>

definition prop_or_undefined :: "jsval \<Rightarrow> string \<Rightarrow> jsval" where
  "prop_or_undefined v key =
     (case v of
        JObject props \<Rightarrow> (case map_of props key of None \<Rightarrow> JUndefined | Some x \<Rightarrow> x)
      | _ \<Rightarrow> JUndefined)"

text \<open>
  The \<^verbatim>\<open>realTime\<close> field of the collaborator's reply: \<^verbatim>\<open>undefined\<close> when the call
  failed, when the reply has no choice, when its text does not decode, and when the
  decoded value has no such field.
\<close>

definition reply_realTime :: "(string \<Rightarrow> jsval option) \<Rightarrow> (exn + completion) \<Rightarrow> jsval" where
  "reply_realTime JSON_parse reply =
     (case reply of
        Inl e \<Rightarrow> JUndefined
      | Inr response \<Rightarrow>
          (case choices response of
             [] \<Rightarrow> JUndefined
           | c # _ \<Rightarrow>
               (case JSON_parse (content_or_empty c) of
                  None \<Rightarrow> JUndefined
                | Some v \<Rightarrow> prop_or_undefined v ''realTime'')))"

text \<open>
  The product of the two numbers lies within the range of the finite doubles (with room
  to spare: the largest double is just below \<open>2^1024\<close>), so that the multiplication
  does not give an infinity.
\<close>

definition finite_product :: "number \<Rightarrow> number \<Rightarrow> bool" where
  "finite_product a b =
     (case (a, b) of (Num x, Num y) \<Rightarrow> \<bar>x * y\<bar> < 2 ^ 1023 | _ \<Rightarrow> True)"

definition is_positive_integer :: "jsval \<Rightarrow> bool" where
  "is_positive_integer v =
     (case v of JNumber (Num r) \<Rightarrow> 0 < r \<and> of_int \<lfloor>r\<rfloor> = r | _ \<Rightarrow> False)"

text \<open>
  At most one timer is alive, and the stored handle is its handle; while one is alive
  there is an active task and it is not paused.
\<close>

definition single_tick :: "state \<Rightarrow> bool" where
  "single_tick s =
     (case intervals s of
        [] \<Rightarrow> timer s = None
      | [(h, closed_over)] \<Rightarrow>
          timer s = Some h \<and>
          (case activeTask s of None \<Rightarrow> False | Some active \<Rightarrow> isPaused active \<noteq> Some True)
      | _ \<Rightarrow> False)"

text \<open>A stored handle comes with an active task.\<close>

definition handle_has_task :: "state \<Rightarrow> bool" where
  "handle_has_task s = (activeTask s = None \<longrightarrow> timer s = None)"

section \<open>Example values\<close>

definition task_A :: Task where
  "task_A =
     \<lparr>task_id = ''1'', name = ''Write report'', estimatedTime = Num 4, realTime = Num 5,
      isRunning = None, isPaused = None, remainingTime = None\<rparr>"

definition task_B :: Task where
  "task_B =
     \<lparr>task_id = ''2'', name = ''Review'', estimatedTime = Num 10, realTime = Num 12,
      isRunning = None, isPaused = None, remainingTime = None\<rparr>"

text \<open>\<open>task_A\<close> as \<^verbatim>\<open>startTimer\<close> leaves it, and as a pause after ten ticks leaves it.\<close>

definition running_A :: Task where
  "running_A =
     task_A\<lparr>isRunning := Some True, isPaused := Some False, remainingTime := Some (Num 300)\<rparr>"

definition paused_A :: Task where
  "paused_A =
     task_A\<lparr>isRunning := Some True, isPaused := Some True, remainingTime := Some (Num 290)\<rparr>"

text \<open>The two tasks loaded from storage, and then \<open>task_A\<close> started.\<close>

definition loaded_AB :: state where
  "loaded_AB = loadTasks True (initial (Some [task_A, task_B]))"

definition started_A :: state where
  "started_A = startTimer task_A loaded_AB"

section \<open>Properties of rounding to a double\<close>

lemma binary_exponent_le:
  assumes "0 < x"
  shows "2 powi binary_exponent x \<le> x"
proof -
  obtain a b where q: "quotient_of x = (a, b)" by (cases "quotient_of x")
  then have b: "0 < b" and x: "x = of_int a / of_int b"
    by (simp_all add: quotient_of_denom_pos quotient_of_div)
  with assms have a: "0 < a" by (simp add: zero_less_divide_iff)
  have la: "(2::rat) powi (bitlen a - 1) \<le> of_int a"
  proof -
    have "2 ^ nat (bitlen a - 1) \<le> a" using bitlen_bounds [OF a] by simp
    then have "(of_int (2 ^ nat (bitlen a - 1)) :: rat) \<le> of_int a" by (simp only: of_int_le_iff)
    moreover have "0 \<le> bitlen a - 1" using a by (simp add: bitlen_alt_def)
    ultimately show ?thesis by (simp add: power_int_def)
  qed
  have lb: "of_int b \<le> (2::rat) powi bitlen b"
  proof -
    have "b < 2 ^ nat (bitlen b)" using bitlen_bounds [OF b] by simp
    then have "(of_int b :: rat) < of_int (2 ^ nat (bitlen b))" by (simp only: of_int_less_iff)
    then show ?thesis using bitlen_nonneg [of b] by (simp add: power_int_def)
  qed
  have "(2::rat) powi (bitlen a - bitlen b - 1) = 2 powi (bitlen a - 1) / 2 powi bitlen b"
    by (simp add: power_int_diff)
  also have "\<dots> \<le> of_int a / 2 powi bitlen b"
    using la by (simp add: divide_right_mono)
  also have "\<dots> \<le> of_int a / of_int b"
    using lb a b by (simp add: divide_left_mono)
  finally have "(2::rat) powi (bitlen a - bitlen b - 1) \<le> x" using x by simp
  then show ?thesis
    by (simp add: binary_exponent_def q Let_def)
qed

lemma binary_exponent_gt:
  assumes "0 < x"
  shows "x < 2 powi (binary_exponent x + 1)"
proof -
  obtain a b where q: "quotient_of x = (a, b)" by (cases "quotient_of x")
  then have b: "0 < b" and x: "x = of_int a / of_int b"
    by (simp_all add: quotient_of_denom_pos quotient_of_div)
  with assms have a: "0 < a" by (simp add: zero_less_divide_iff)
  have la: "of_int a < (2::rat) powi bitlen a"
  proof -
    have "a < 2 ^ nat (bitlen a)" using bitlen_bounds [OF a] by simp
    then have "(of_int a :: rat) < of_int (2 ^ nat (bitlen a))" by (simp only: of_int_less_iff)
    then show ?thesis using bitlen_nonneg [of a] by (simp add: power_int_def)
  qed
  have lb: "(2::rat) powi (bitlen b - 1) \<le> of_int b"
  proof -
    have "2 ^ nat (bitlen b - 1) \<le> b" using bitlen_bounds [OF b] by simp
    then have "(of_int (2 ^ nat (bitlen b - 1)) :: rat) \<le> of_int b" by (simp only: of_int_le_iff)
    moreover have "0 \<le> bitlen b - 1" using b by (simp add: bitlen_alt_def)
    ultimately show ?thesis by (simp add: power_int_def)
  qed
  have "of_int a / of_int b < (2::rat) powi bitlen a / of_int b"
    using la b by (simp add: divide_strict_right_mono)
  also have "\<dots> \<le> 2 powi bitlen a / 2 powi (bitlen b - 1)"
    using lb b by (intro divide_left_mono) simp_all
  also have "\<dots> = 2 powi (bitlen a - bitlen b + 1)"
    by (simp add: power_int_diff [symmetric] algebra_simps)
  finally have "x < 2 powi (bitlen a - bitlen b + 1)" using x by simp
  then show ?thesis
    by (auto simp: binary_exponent_def q Let_def not_le)
qed

lemma round_half_even_near: "\<bar>of_int (round_half_even q) - q\<bar> \<le> 1 / 2"
proof -
  have "of_int \<lfloor>q\<rfloor> \<le> q" and "q < of_int \<lfloor>q\<rfloor> + 1"
    by linarith+
  then show ?thesis
    unfolding round_half_even_def Let_def by (simp add: abs_le_iff)
qed

lemma round_half_even_le:
  assumes "q \<le> of_int k"
  shows "round_half_even q \<le> k"
proof (cases "\<lfloor>q\<rfloor> = k")
  case True
  with assms have "q - of_int \<lfloor>q\<rfloor> \<le> 0" by simp
  then show ?thesis
    unfolding round_half_even_def Let_def using True by simp
next
  case False
  moreover from assms have "\<lfloor>q\<rfloor> \<le> k" by (simp add: floor_le_iff)
  ultimately have "\<lfloor>q\<rfloor> + 1 \<le> k" by simp
  then show ?thesis
    unfolding round_half_even_def Let_def by simp
qed

lemma round_half_even_ge:
  assumes "of_int k \<le> q"
  shows "k \<le> round_half_even q"
proof -
  from assms have "k \<le> \<lfloor>q\<rfloor>" by (simp add: le_floor_iff)
  then show ?thesis
    unfolding round_half_even_def Let_def by simp
qed

lemma round_double_pos_unfold:
  assumes "0 < x"
  shows "round_double x =
     of_int (round_half_even (x / 2 powi (max (binary_exponent x) (- 1022) - 52))) *
       2 powi (max (binary_exponent x) (- 1022) - 52)"
  using assms by (simp add: round_double_def Let_def)

lemma small_exponent:
  assumes "0 < x" and "x < 2 ^ 51"
  shows "max (binary_exponent x) (- 1022) \<le> 50"
proof -
  have "(2::rat) powi binary_exponent x < 2 powi 51"
    using binary_exponent_le [OF assms(1)] assms(2) by simp
  then have "binary_exponent x < 51"
    by (rule power_int_le_imp_less_exp [rotated]) simp_all
  then show ?thesis by simp
qed

text \<open>Below \<open>2^51\<close> the doubles are at most a quarter apart.\<close>

lemma round_double_near:
  assumes "0 < x" and "x < 2 ^ 51"
  shows "\<bar>round_double x - x\<bar> \<le> 1 / 8"
proof -
  define e where "e = max (binary_exponent x) (- 1022)"
  define ulp :: rat where "ulp = 2 powi (e - 52)"
  have e: "e \<le> 50" unfolding e_def by (rule small_exponent [OF assms])
  have pos: "0 < ulp" unfolding ulp_def by simp
  have "ulp \<le> 2 powi (- 2)"
    unfolding ulp_def using e by (intro power_int_increasing) simp_all
  then have small: "ulp \<le> 1 / 4" by (simp add: power_int_minus)
  have "\<bar>of_int (round_half_even (x / ulp)) - x / ulp\<bar> \<le> 1 / 2"
    by (rule round_half_even_near)
  then have "\<bar>of_int (round_half_even (x / ulp)) - x / ulp\<bar> * ulp \<le> 1 / 2 * ulp"
    using pos by (simp add: mult_right_mono)
  moreover have "\<bar>of_int (round_half_even (x / ulp)) - x / ulp\<bar> * ulp =
      \<bar>of_int (round_half_even (x / ulp)) * ulp - x\<bar>"
  proof -
    have "\<bar>of_int (round_half_even (x / ulp)) - x / ulp\<bar> * ulp =
        \<bar>(of_int (round_half_even (x / ulp)) - x / ulp) * ulp\<bar>"
      using pos by (simp add: abs_mult)
    also have "(of_int (round_half_even (x / ulp)) - x / ulp) * ulp =
        of_int (round_half_even (x / ulp)) * ulp - x"
      using pos by (simp add: left_diff_distrib)
    finally show ?thesis .
  qed
  ultimately have "\<bar>of_int (round_half_even (x / ulp)) * ulp - x\<bar> \<le> 1 / 8"
    using small by linarith
  then show ?thesis
    using assms(1) by (simp add: round_double_pos_unfold ulp_def e_def)
qed

text \<open>An integer is a double there, so rounding does not pass it.\<close>

lemma round_double_le_int:
  assumes "0 < x" and "x < 2 ^ 51" and "x \<le> of_int m"
  shows "round_double x \<le> of_int m"
proof -
  define e where "e = max (binary_exponent x) (- 1022)"
  define ulp :: rat where "ulp = 2 powi (e - 52)"
  define k where "k = nat (52 - e)"
  have e: "e \<le> 50" unfolding e_def by (rule small_exponent [OF assms(1,2)])
  have pos: "0 < ulp" unfolding ulp_def by simp
  have ulp: "ulp = 1 / 2 ^ k"
    unfolding ulp_def k_def using e by (simp add: power_int_def field_simps)
  have "x / ulp \<le> of_int m / ulp"
    using assms(3) pos by (simp add: divide_right_mono)
  also have "of_int m / ulp = of_int (m * 2 ^ k)"
    by (simp add: ulp)
  finally have "round_half_even (x / ulp) \<le> m * 2 ^ k"
    by (rule round_half_even_le)
  then have "(of_int (round_half_even (x / ulp)) :: rat) \<le> of_int (m * 2 ^ k)"
    by (simp only: of_int_le_iff)
  then have "of_int (round_half_even (x / ulp)) * ulp \<le> of_int (m * 2 ^ k) * ulp"
    using pos by (simp add: mult_right_mono)
  also have "of_int (m * 2 ^ k) * ulp = of_int m"
    by (simp add: ulp)
  finally show ?thesis
    using assms(1) by (simp add: round_double_pos_unfold ulp_def e_def)
qed

lemma round_double_ge_one:
  assumes "1 \<le> x"
  shows "1 \<le> round_double x"
proof -
  define e where "e = max (binary_exponent x) (- 1022)"
  define ulp :: rat where "ulp = 2 powi (e - 52)"
  have x: "0 < x" using assms by simp
  have pos: "0 < ulp" unfolding ulp_def by simp
  have rd: "round_double x = of_int (round_half_even (x / ulp)) * ulp"
    using x by (simp add: round_double_pos_unfold ulp_def e_def)
  show ?thesis
  proof (cases "e \<le> 52")
    case True
    define k where "k = nat (52 - e)"
    have ulp: "ulp = 1 / 2 ^ k"
      unfolding ulp_def k_def using True by (simp add: power_int_def field_simps)
    have "of_int (2 ^ k) = 1 / ulp" by (simp add: ulp)
    also have "\<dots> \<le> x / ulp" using assms pos by (simp add: divide_right_mono)
    finally have "2 ^ k \<le> round_half_even (x / ulp)"
      by (rule round_half_even_ge)
    then have "(of_int (2 ^ k) :: rat) \<le> of_int (round_half_even (x / ulp))"
      by (simp only: of_int_le_iff)
    then have "of_int (2 ^ k) * ulp \<le> of_int (round_half_even (x / ulp)) * ulp"
      using pos by (simp add: mult_right_mono)
    then show ?thesis by (simp add: rd ulp)
  next
    case False
    then have be: "e = binary_exponent x" and big: "52 < e" by (simp_all add: e_def)
    have "(2::rat) powi e \<le> x" unfolding be by (rule binary_exponent_le [OF x])
    then have "2 powi e / ulp \<le> x / ulp" using pos by (simp add: divide_right_mono)
    moreover have "2 powi e / ulp = of_int (2 ^ 52)"
      unfolding ulp_def by (simp add: power_int_diff)
    ultimately have "2 ^ 52 \<le> round_half_even (x / ulp)"
      using round_half_even_ge [of "2 ^ 52" "x / ulp"] by simp
    moreover have "(1::int) \<le> 2 ^ 52" by simp
    ultimately have "1 \<le> round_half_even (x / ulp)" by (rule order_trans [rotated])
    then have "(1::rat) \<le> of_int (round_half_even (x / ulp))" by simp
    moreover have "1 \<le> ulp"
      unfolding ulp_def using big by (intro one_le_power_int) simp_all
    ultimately have "1 * 1 \<le> of_int (round_half_even (x / ulp)) * ulp"
      by (intro mult_mono) simp_all
    then show ?thesis by (simp add: rd)
  qed
qed

text \<open>The double that the literal \<^verbatim>\<open>1.2\<close> denotes: a little less than \<open>12 / 10\<close>.\<close>

lemma double_of_literal: "round_double (12 / 10) = 5404319552844595 / 4503599627370496"
  by code_simp

text \<open>
  For a positive integer \<open>n\<close> below \<open>1688849860263936\<close>, which is \<open>3 * 2^49\<close>, the double
  computation \<^verbatim>\<open>Math.ceil(n * 1.2)\<close> gives the exact ceiling of \<open>12 n / 10\<close>: the product
  falls short of \<open>12 n / 10\<close> by less than \<open>3 / 40\<close> and is rounded by at most \<open>1 / 8\<close>,
  while \<open>12 n / 10\<close> lies at least \<open>1 / 5\<close> above the integer below its ceiling.
\<close>

lemma ceiling_of_double_product:
  assumes "0 < n" and "n < 1688849860263936"
  shows "\<lceil>round_double (of_int n * round_double (12 / 10))\<rceil> =
     \<lceil>(of_int n :: rat) * (12 / 10)\<rceil>"
proof -
  define x :: rat where "x = of_int n * (5404319552844595 / 4503599627370496)"
  define m where "m = \<lceil>(of_int n :: rat) * (12 / 10)\<rceil>"
  have n1: "(1::rat) \<le> of_int n" and n2: "(of_int n :: rat) < 1688849860263936"
    using assms by simp_all
  have xpos: "0 < x" unfolding x_def using n1 by simp
  have xsmall: "x < 2 ^ 51" unfolding x_def using n2 by simp
  have up: "(of_int n :: rat) * (12 / 10) \<le> of_int m"
    unfolding m_def by (rule le_of_int_ceiling)
  have "x \<le> of_int n * (12 / 10)" unfolding x_def using n1 by simp
  with up have "x \<le> of_int m" by simp
  then have le: "round_double x \<le> of_int m"
    by (rule round_double_le_int [OF xpos xsmall])
  have "of_int m - 1 < (of_int n :: rat) * (12 / 10)"
    unfolding m_def by linarith
  then have "(of_int (5 * (m - 1)) :: rat) < of_int (6 * n)" by simp
  then have "5 * (m - 1) < 6 * n" by (simp only: of_int_less_iff)
  then have "5 * (m - 1) + 1 \<le> 6 * n" by simp
  then have "(of_int (5 * (m - 1) + 1) :: rat) \<le> of_int (6 * n)" by (simp only: of_int_le_iff)
  then have "of_int m - 1 + 1 / 5 \<le> (of_int n :: rat) * (12 / 10)" by simp
  moreover have "of_int n * (12 / 10) - x < 3 / 40"
    unfolding x_def using n2 by simp
  ultimately have "of_int m - 1 + 1 / 8 < x" by linarith
  moreover have "\<bar>round_double x - x\<bar> \<le> 1 / 8"
    by (rule round_double_near [OF xpos xsmall])
  ultimately have gt: "of_int m - 1 < round_double x" by linarith
  from gt le have "\<lceil>round_double x\<rceil> = m" by (simp add: ceiling_eq_iff)
  then show ?thesis unfolding double_of_literal x_def m_def by simp
qed

section \<open>Properties of the estimation service\<close>

lemma fallbackRealTime_exact:
  "0 < n \<Longrightarrow> n < 1688849860263936 \<Longrightarrow>
   fallbackRealTime (Num (of_int n)) = Num (of_int \<lceil>(of_int n :: rat) * (12 / 10)\<rceil>)"
  by (simp only: fallbackRealTime_def num_mul.simps Math_ceil.simps ceiling_of_double_product)

lemma fallbackRealTime_positive:
  assumes "0 < n"
  shows "\<exists>k. fallbackRealTime (Num (of_int n)) = Num (of_int k) \<and> 0 < k"
proof -
  have "(1::rat) \<le> of_int n" using assms by simp
  then have "1 * 1 \<le> of_int n * (5404319552844595 / 4503599627370496 :: rat)"
    by (intro mult_mono) simp_all
  then have "1 \<le> round_double (of_int n * round_double (12 / 10))"
    unfolding double_of_literal by (intro round_double_ge_one) simp
  then have "0 < \<lceil>round_double (of_int n * round_double (12 / 10))\<rceil>"
    by (simp add: ceiling_less_iff less_ceiling_iff)
  then show ?thesis
    by (simp only: fallbackRealTime_def num_mul.simps Math_ceil.simps) blast
qed

lemma get_prop_cases:
  "get_prop v key =
     (if v = JUndefined \<or> v = JNull then Inl TypeError else Inr (prop_or_undefined v key))"
  by (cases v) (simp_all add: prop_or_undefined_def)

text \<open>The promise never rejects: every path of \<^verbatim>\<open>calculateRealTime\<close> ends in a result.\<close>

lemma calculateRealTime_resolves:
  "\<exists>r. calculateRealTime JSON_parse create task_name minutes = Inr r"
  by (simp add: calculateRealTime_def split: sum.splits)

text \<open>
  When the external call fails, whatever the estimated time is, the result holds what
  \<^verbatim>\<open>Math.ceil(estimatedTime * 1.2)\<close> gives on doubles, and the API-error explanation.
\<close>

lemma calculateRealTime_api_failure_any:
  "create task_name minutes = Inl e \<Longrightarrow>
   calculateRealTime JSON_parse create task_name minutes =
     Inr \<lparr>result_realTime = JNumber (fallbackRealTime minutes),
          result_explanation = JString API_ERROR_EXPLANATION\<rparr>"
  by (simp add: calculateRealTime_def outer_try_def)

text \<open>
  A reply without any choice makes the outer block throw, which ends in the API-error
  result as well.
\<close>

lemma calculateRealTime_no_choice:
  "create task_name minutes = Inr response \<Longrightarrow> choices response = [] \<Longrightarrow>
   calculateRealTime JSON_parse create task_name minutes =
     Inr \<lparr>result_realTime = JNumber (fallbackRealTime minutes),
          result_explanation = JString API_ERROR_EXPLANATION\<rparr>"
  by (simp add: calculateRealTime_def outer_try_def)

text \<open>
  C1 as stated fails for large minutes: with 2167178264634836 estimated minutes and
  a failed call the result holds 2600613917561803 minutes, one less than the ceiling
  of 1.2 times the estimate, because the product is rounded to a double before the
  ceiling is taken.
\<close>

theorem calculateRealTime_api_failure_counterexample:
  "calculateRealTime (\<lambda>str. None) (\<lambda>name est. Inl APIError) ''Write report''
       (Num 2167178264634836) =
     Inr \<lparr>result_realTime = JNumber (Num 2600613917561803),
          result_explanation = JString API_ERROR_EXPLANATION\<rparr>
   \<and> \<lceil>(2167178264634836 :: rat) * (12 / 10)\<rceil> = 2600613917561804"
  by code_simp

text \<open>
  C1, amended. When the external call itself fails, for every task name and every
  positive integer \<open>n\<close> of estimated minutes below \<open>1688849860263936\<close>,
  \<^verbatim>\<open>calculateRealTime\<close> resolves (it does not reject) with \<open>ceil (n * 1.2)\<close> minutes and
  the fixed API-error explanation.
\<close>

theorem calculateRealTime_api_failure:
  assumes "create task_name (Num (of_int n)) = Inl e"
    and "0 < n" and "n < 1688849860263936"
  shows "calculateRealTime JSON_parse create task_name (Num (of_int n)) =
     Inr \<lparr>result_realTime = JNumber (Num (of_int \<lceil>(of_int n :: rat) * (12 / 10)\<rceil>)),
          result_explanation = JString API_ERROR_EXPLANATION\<rparr>"
  using assms by (simp add: calculateRealTime_def outer_try_def fallbackRealTime_exact)

theorem calculateRealTime_api_failure_witness:
  "(0::int) < 60 \<and> (60::int) < 1688849860263936 \<and>
   calculateRealTime (\<lambda>str. None) (\<lambda>name est. Inl APIError) ''Write report'' (Num 60) =
     Inr \<lparr>result_realTime = JNumber (Num 72),
          result_explanation = JString API_ERROR_EXPLANATION\<rparr>"
  using calculateRealTime_api_failure
    [of "\<lambda>name est. Inl APIError" "''Write report''" 60 APIError "\<lambda>str. None"]
  by simp

text \<open>
  C2 as stated fails for large minutes: with 2167178264634836 estimated minutes and a
  reply whose text does not decode, the result holds 2600613917561803 minutes, one
  less than the ceiling of 1.2 times the estimate.
\<close>

theorem calculateRealTime_decoding_counterexample:
  "calculateRealTime (\<lambda>str. None)
       (\<lambda>name est. Inr \<lparr>choices = [\<lparr>message = \<lparr>content = Some ''about two hours''\<rparr>\<rparr>]\<rparr>)
       ''Write report'' (Num 2167178264634836) =
     Inr \<lparr>result_realTime = JNumber (Num 2600613917561803),
          result_explanation = JString OVERHEAD_EXPLANATION\<rparr>
   \<and> \<lceil>(2167178264634836 :: rat) * (12 / 10)\<rceil> = 2600613917561804"
  by code_simp

text \<open>
  C2, amended. For every positive integer \<open>n\<close> of estimated minutes below
  \<open>1688849860263936\<close>, when the call gives a reply with a first choice: if the reply's
  text does not decode, the result is \<open>ceil (n * 1.2)\<close> minutes with the overhead
  explanation; if it decodes, each of the two fields is the decoded value's field when
  that is present and truthy, unchanged, and otherwise its own fallback
  (\<open>ceil (n * 1.2)\<close> for the minutes, the overhead explanation for the text), each field
  independently of the other.
\<close>

theorem calculateRealTime_decoding:
  assumes "create task_name (Num (of_int n)) = Inr response"
    and "choices response = c # cs"
    and "0 < n" and "n < 1688849860263936"
  shows "calculateRealTime JSON_parse create task_name (Num (of_int n)) =
     Inr (case JSON_parse (content_or_empty c) of
        None \<Rightarrow>
          \<lparr>result_realTime = JNumber (Num (of_int \<lceil>(of_int n :: rat) * (12 / 10)\<rceil>)),
           result_explanation = JString OVERHEAD_EXPLANATION\<rparr>
      | Some v \<Rightarrow>
          \<lparr>result_realTime =
             (if truthy (prop_or_undefined v ''realTime'') then prop_or_undefined v ''realTime''
              else JNumber (Num (of_int \<lceil>(of_int n :: rat) * (12 / 10)\<rceil>))),
           result_explanation =
             (if truthy (prop_or_undefined v ''explanation'')
              then prop_or_undefined v ''explanation''
              else JString OVERHEAD_EXPLANATION)\<rparr>)"
  using assms
  by (auto simp: calculateRealTime_def outer_try_def inner_try_def get_prop_cases js_or_def
      fallbackRealTime_exact prop_or_undefined_def split: option.splits)

text \<open>
  A reply whose text decodes to an object with the minutes 90 and no explanation: the
  minutes pass through, the explanation is the fallback. And a reply whose text does
  not decode: both fields are the fallbacks.
\<close>

theorem calculateRealTime_decoding_witness:
  "(0::int) < 60 \<and> (60::int) < 1688849860263936 \<and>
   calculateRealTime
     (\<lambda>str. if str = ''{\"realTime\": 90}''
            then Some (JObject [(''realTime'', JNumber (Num 90))]) else None)
     (\<lambda>name est. Inr \<lparr>choices = [\<lparr>message = \<lparr>content = Some ''{\"realTime\": 90}''\<rparr>\<rparr>]\<rparr>)
     ''Write report'' (Num 60) =
   Inr \<lparr>result_realTime = JNumber (Num 90),
        result_explanation = JString OVERHEAD_EXPLANATION\<rparr> \<and>
   calculateRealTime (\<lambda>str. None)
     (\<lambda>name est. Inr \<lparr>choices = [\<lparr>message = \<lparr>content = Some ''about two hours''\<rparr>\<rparr>]\<rparr>)
     ''Write report'' (Num 60) =
   Inr \<lparr>result_realTime = JNumber (Num 72),
        result_explanation = JString OVERHEAD_EXPLANATION\<rparr>"
proof -
  have a: "calculateRealTime
     (\<lambda>str. if str = ''{\"realTime\": 90}''
            then Some (JObject [(''realTime'', JNumber (Num 90))]) else None)
     (\<lambda>name est. Inr \<lparr>choices = [\<lparr>message = \<lparr>content = Some ''{\"realTime\": 90}''\<rparr>\<rparr>]\<rparr>)
     ''Write report'' (Num 60) =
   Inr \<lparr>result_realTime = JNumber (Num 90),
        result_explanation = JString OVERHEAD_EXPLANATION\<rparr>"
    using calculateRealTime_decoding
      [of "\<lambda>name est. Inr \<lparr>choices = [\<lparr>message = \<lparr>content = Some ''{\"realTime\": 90}''\<rparr>\<rparr>]\<rparr>"
        "''Write report''" 60
        "\<lparr>choices = [\<lparr>message = \<lparr>content = Some ''{\"realTime\": 90}''\<rparr>\<rparr>]\<rparr>"
        "\<lparr>message = \<lparr>content = Some ''{\"realTime\": 90}''\<rparr>\<rparr>" "[]"
        "\<lambda>str. if str = ''{\"realTime\": 90}''
            then Some (JObject [(''realTime'', JNumber (Num 90))]) else None"]
    by (simp add: content_or_empty_def prop_or_undefined_def)
  have b: "calculateRealTime (\<lambda>str. None)
     (\<lambda>name est. Inr \<lparr>choices = [\<lparr>message = \<lparr>content = Some ''about two hours''\<rparr>\<rparr>]\<rparr>)
     ''Write report'' (Num 60) =
   Inr \<lparr>result_realTime = JNumber (Num 72),
        result_explanation = JString OVERHEAD_EXPLANATION\<rparr>"
    using calculateRealTime_decoding
      [of "\<lambda>name est. Inr \<lparr>choices = [\<lparr>message = \<lparr>content = Some ''about two hours''\<rparr>\<rparr>]\<rparr>"
        "''Write report''" 60
        "\<lparr>choices = [\<lparr>message = \<lparr>content = Some ''about two hours''\<rparr>\<rparr>]\<rparr>"
        "\<lparr>message = \<lparr>content = Some ''about two hours''\<rparr>\<rparr>" "[]"
        "\<lambda>str. None"]
    by simp
  from a b show ?thesis by simp
qed

text \<open>
  C9 as stated fails: a reply whose \<^verbatim>\<open>realTime\<close> field is \<open>- 5\<close> is passed through,
  and \<open>- 5\<close> is not a positive integer.
\<close>

theorem calculateRealTime_negative_counterexample:
  "calculateRealTime
     (\<lambda>str. if str = ''{\"realTime\": -5, \"explanation\": \"x\"}''
            then Some (JObject [(''realTime'', JNumber (Num (- 5))),
                                (''explanation'', JString ''x'')])
            else None)
     (\<lambda>name est. Inr \<lparr>choices =
        [\<lparr>message = \<lparr>content = Some ''{\"realTime\": -5, \"explanation\": \"x\"}''\<rparr>\<rparr>]\<rparr>)
     ''Write report'' (Num 60) =
   Inr \<lparr>result_realTime = JNumber (Num (- 5)), result_explanation = JString ''x''\<rparr>
   \<and> \<not> is_positive_integer (JNumber (Num (- 5)))"
  by (simp add: calculateRealTime_def outer_try_def inner_try_def content_or_empty_def
      js_or_def is_positive_integer_def)

text \<open>
  C9, amended. For a positive integer \<open>n\<close> of estimated minutes below \<open>2^1023\<close> (so
  that \<^verbatim>\<open>n * 1.2\<close> is a finite double), \<^verbatim>\<open>calculateRealTime\<close> resolves, and the minutes
  of its result are the \<^verbatim>\<open>realTime\<close> field of the reply, unchanged, when that field is
  truthy, and otherwise (the call failed, the text did not decode, the field is
  missing, zero or falsy in another way) what \<^verbatim>\<open>Math.ceil(n * 1.2)\<close> gives on doubles,
  which is a positive integer, and is \<open>ceil (n * 1.2)\<close> for \<open>n\<close> below
  \<open>1688849860263936\<close>.
\<close>

theorem calculateRealTime_minutes:
  assumes "0 < n" and "n < 2 ^ 1023"
  shows "\<exists>r. calculateRealTime JSON_parse create task_name (Num (of_int n)) = Inr r \<and>
     result_realTime r =
       (if truthy (reply_realTime JSON_parse (create task_name (Num (of_int n))))
        then reply_realTime JSON_parse (create task_name (Num (of_int n)))
        else JNumber (fallbackRealTime (Num (of_int n)))) \<and>
     is_positive_integer (JNumber (fallbackRealTime (Num (of_int n)))) \<and>
     (n < 1688849860263936 \<longrightarrow>
        fallbackRealTime (Num (of_int n)) = Num (of_int \<lceil>(of_int n :: rat) * (12 / 10)\<rceil>))"
proof -
  obtain k where "fallbackRealTime (Num (of_int n)) = Num (of_int k)" and "0 < k"
    using fallbackRealTime_positive [OF assms(1)] by blast
  then have "is_positive_integer (JNumber (fallbackRealTime (Num (of_int n))))"
    by (simp add: is_positive_integer_def)
  moreover have "\<exists>r. calculateRealTime JSON_parse create task_name (Num (of_int n)) = Inr r \<and>
     result_realTime r =
       (if truthy (reply_realTime JSON_parse (create task_name (Num (of_int n))))
        then reply_realTime JSON_parse (create task_name (Num (of_int n)))
        else JNumber (fallbackRealTime (Num (of_int n))))"
    by (auto simp: calculateRealTime_def outer_try_def inner_try_def get_prop_cases js_or_def
        reply_realTime_def prop_or_undefined_def
        split: sum.splits list.splits option.splits)
  moreover have "n < 1688849860263936 \<longrightarrow>
        fallbackRealTime (Num (of_int n)) = Num (of_int \<lceil>(of_int n :: rat) * (12 / 10)\<rceil>)"
    using assms by (simp add: fallbackRealTime_exact)
  ultimately show ?thesis by blast
qed

text \<open>
  A reply with 90 minutes: they pass through. A failed call: the fallback for 60
  minutes, which is 72.
\<close>

theorem calculateRealTime_minutes_witness:
  "(0::int) < 60 \<and> (60::int) < 2 ^ 1023 \<and>
   (\<exists>r. calculateRealTime
           (\<lambda>str. if str = ''{\"realTime\": 90}''
                  then Some (JObject [(''realTime'', JNumber (Num 90))]) else None)
           (\<lambda>name est. Inr \<lparr>choices = [\<lparr>message = \<lparr>content = Some ''{\"realTime\": 90}''\<rparr>\<rparr>]\<rparr>)
           ''Write report'' (Num 60) = Inr r \<and>
        result_realTime r = JNumber (Num 90)) \<and>
   (\<exists>r. calculateRealTime (\<lambda>str. None) (\<lambda>name est. Inl APIError) ''Write report'' (Num 60)
           = Inr r \<and>
        result_realTime r = JNumber (Num 72) \<and> is_positive_integer (JNumber (Num 72)))"
proof -
  have pos: "(0::int) < 60" by simp
  have small: "(60::int) < 2 ^ 1023" by simp
  have f: "fallbackRealTime (Num 60) = Num 72" by code_simp
  from calculateRealTime_minutes
    [OF pos small, of "\<lambda>str. if str = ''{\"realTime\": 90}''
                  then Some (JObject [(''realTime'', JNumber (Num 90))]) else None"
       "\<lambda>name est. Inr \<lparr>choices = [\<lparr>message = \<lparr>content = Some ''{\"realTime\": 90}''\<rparr>\<rparr>]\<rparr>"
       "''Write report''"]
  have a: "\<exists>r. calculateRealTime
           (\<lambda>str. if str = ''{\"realTime\": 90}''
                  then Some (JObject [(''realTime'', JNumber (Num 90))]) else None)
           (\<lambda>name est. Inr \<lparr>choices = [\<lparr>message = \<lparr>content = Some ''{\"realTime\": 90}''\<rparr>\<rparr>]\<rparr>)
           ''Write report'' (Num 60) = Inr r \<and>
        result_realTime r = JNumber (Num 90)"
    by (auto simp: reply_realTime_def content_or_empty_def prop_or_undefined_def)
  from calculateRealTime_minutes
    [OF pos small, of "\<lambda>str. None" "\<lambda>name est. Inl APIError" "''Write report''"]
  have b: "\<exists>r. calculateRealTime (\<lambda>str. None) (\<lambda>name est. Inl APIError) ''Write report'' (Num 60)
           = Inr r \<and>
        result_realTime r = JNumber (Num 72) \<and> is_positive_integer (JNumber (Num 72))"
    by (auto simp: reply_realTime_def f)
  from pos small a b show ?thesis by (intro conjI)
qed

section \<open>Properties of the controller\<close>

subsection \<open>The example states\<close>

lemma loaded_AB_eq:
  "loaded_AB = (initial (Some [task_A, task_B]))\<lparr>tasks := [task_A, task_B]\<rparr>"
  by (simp add: loaded_AB_def loadTasks_def initial_def)

lemma started_A_eq:
  "started_A =
     (initial (Some [task_A, task_B]))
       \<lparr>tasks := [running_A, task_B], activeTask := Some running_A, timer := Some 1,
        intervals := [(1, [task_A, task_B])], nextInterval := 2\<rparr>"
  by code_simp

lemma started_A_fields:
  "activeTask started_A = Some running_A"
  "timer started_A = Some 1"
  "intervals started_A = [(1, [task_A, task_B])]"
  "tasks started_A = [running_A, task_B]"
  by (simp_all add: started_A_eq)

subsection \<open>Starting\<close>

text \<open>
  C3. While some task \<open>A\<close> is the active task, \<^verbatim>\<open>startTimer\<close> on a task \<open>B\<close> with another
  id shows the warning and changes nothing else: the task list, the active task, the
  stored handle and the timers alive are as before.
\<close>

theorem startTimer_other_task_rejected:
  assumes "activeTask s = Some A" and "task_id B \<noteq> task_id A"
  shows "startTimer B s = s\<lparr>alerts := alerts s @ [AlreadyRunning]\<rparr>
     \<and> tasks (startTimer B s) = tasks s
     \<and> activeTask (startTimer B s) = Some A
     \<and> timer (startTimer B s) = timer s
     \<and> intervals (startTimer B s) = intervals s"
  using assms by (simp add: startTimer_def another_active_def show_alert_def)

theorem startTimer_other_task_rejected_witness:
  "activeTask started_A = Some running_A \<and> task_id task_B \<noteq> task_id running_A \<and>
   startTimer task_B started_A = started_A\<lparr>alerts := alerts started_A @ [AlreadyRunning]\<rparr>"
proof -
  have a: "activeTask started_A = Some running_A"
    by (rule started_A_fields)
  have b: "task_id task_B \<noteq> task_id running_A"
    by (simp add: task_B_def running_A_def task_A_def)
  from startTimer_other_task_rejected [OF a b]
  have "startTimer task_B started_A = started_A\<lparr>alerts := alerts started_A @ [AlreadyRunning]\<rparr>"
    by (rule conjunct1)
  with a b show ?thesis by (intro conjI)
qed

text \<open>
  The state after \<open>task_A\<close> (5 minutes, so 300 seconds) was started, its timer fired ten
  times and the task was paused.
\<close>

lemma paused_after_ten_ticks:
  "run toString ([Load True, StartTimer task_A] @ replicate 10 (Tick 1) @ [PauseTimer])
     (initial (Some [task_A, task_B])) =
   (initial (Some [task_A, task_B]))
     \<lparr>tasks := [paused_A, task_B], activeTask := Some paused_A, timer := None,
      intervals := [], nextInterval := 2\<rparr>"
  by code_simp

text \<open>
  C4 as stated fails: a stored remaining time of zero is set, but \<^verbatim>\<open>startTimer\<close> does
  not resume from it: the paused task below, with 5 real minutes and 0 seconds
  remaining, is started at 300 seconds. The same happens when the stored remaining
  time is \<^verbatim>\<open>NaN\<close>.
\<close>

theorem startTimer_stored_zero_counterexample:
  "remainingTime (task_A\<lparr>isRunning := Some True, isPaused := Some True,
                         remainingTime := Some (Num 0)\<rparr>) = Some (Num 0)
   \<and> activeTask
        (startTimer
           (task_A\<lparr>isRunning := Some True, isPaused := Some True,
                    remainingTime := Some (Num 0)\<rparr>)
           (loaded_AB
              \<lparr>tasks := [task_A\<lparr>isRunning := Some True, isPaused := Some True,
                                  remainingTime := Some (Num 0)\<rparr>, task_B],
               activeTask := Some (task_A\<lparr>isRunning := Some True, isPaused := Some True,
                                          remainingTime := Some (Num 0)\<rparr>)\<rparr>)) =
     Some (task_A\<lparr>isRunning := Some True, isPaused := Some False,
                  remainingTime := Some (Num 300)\<rparr>)
   \<and> activeTask
        (startTimer
           (task_A\<lparr>isRunning := Some True, isPaused := Some True,
                    remainingTime := Some NaN\<rparr>)
           (loaded_AB
              \<lparr>tasks := [task_A\<lparr>isRunning := Some True, isPaused := Some True,
                                  remainingTime := Some NaN\<rparr>, task_B],
               activeTask := Some (task_A\<lparr>isRunning := Some True, isPaused := Some True,
                                          remainingTime := Some NaN\<rparr>)\<rparr>)) =
     Some (task_A\<lparr>isRunning := Some True, isPaused := Some False,
                  remainingTime := Some (Num 300)\<rparr>)"
  by code_simp

text \<open>
  Such a task arises in use. A task of 0 minutes is added with an estimate of 0 minutes,
  started (0 seconds are stored) and paused; it is then edited to 5 minutes with an
  estimate of 6 minutes. Each prompt keeps what \<^verbatim>\<open>handleAddTask\<close> saw when it was
  pressed. The list entry then has 6 real minutes and 0 seconds stored, and starting it
  begins at 360 seconds.
\<close>

lemma stored_zero_is_reached:
  "(let nap = \<lparr>task_id = ''7'', name = ''Nap'', estimatedTime = Num 0, realTime = Num 0,
              isRunning = None, isPaused = None, remainingTime = None\<rparr>;
        paused = nap\<lparr>isRunning := Some True, isPaused := Some True,
                     remainingTime := Some (Num 0)\<rparr>;
        edited = paused\<lparr>estimatedTime := Num 5, realTime := Num 6\<rparr>;
        zero = \<lparr>est_realTime = Num 0, est_explanation = ''e''\<rparr>;
        six = \<lparr>est_realTime = Num 6, est_explanation = ''e''\<rparr>;
        s1 = run toString [SetTaskName ''Nap'', SetEstimatedTime ''0''] (initial None);
        p1 = \<lparr>p_tasks = [], p_editingTask = None, p_taskName = ''Nap'',
              p_estimatedMinutes = Num 0, p_result = zero\<rparr>;
        s2 = run toString
               [PressAdd zero, ConfirmAdd p1 ''7'' True, StartTimer nap, PauseTimer,
                EditTask paused, SetEstimatedTime ''5''] s1;
        p2 = \<lparr>p_tasks = [paused], p_editingTask = Some paused, p_taskName = ''Nap'',
              p_estimatedMinutes = Num 5, p_result = six\<rparr>;
        s3 = run toString [PressAdd six, ConfirmAdd p2 ''8'' True] s2
    in snd (handleAddTask zero s1) = Some p1
       \<and> snd (handleAddTask six s2) = Some p2
       \<and> tasks s3 = [edited]
       \<and> activeTask s3 = Some paused
       \<and> remainingTime edited = Some (Num 0)
       \<and> map_option remainingTime (activeTask (startTimer edited s3)) = Some (Some (Num 360)))"
  by code_simp

text \<open>
  C4, amended. When \<^verbatim>\<open>startTimer\<close> accepts a task, the active task becomes that task,
  running and not paused, with the remaining time the task had stored when that is
  neither zero nor \<^verbatim>\<open>NaN\<close>, and with its real minutes times 60 (a finite double) when
  none is stored. In particular: \<open>task_A\<close> has 5 real minutes; after it was started, ticked ten times and
  paused, its list entry has 290 seconds left, and starting that entry again resumes at
  290 seconds.
\<close>

theorem startTimer_resume_contract:
  "(\<not> another_active task s \<and> remainingTime task = Some (Num r) \<and> r \<noteq> 0 \<longrightarrow>
      activeTask (startTimer task s) =
        Some (task\<lparr>isRunning := Some True, isPaused := Some False,
                   remainingTime := Some (Num r)\<rparr>))
   \<and> (\<not> another_active task s \<and> remainingTime task = None \<and>
      finite_product (realTime task) (Num 60) \<longrightarrow>
      activeTask (startTimer task s) =
        Some (task\<lparr>isRunning := Some True, isPaused := Some False,
                   remainingTime := Some (num_mul (realTime task) (Num 60))\<rparr>))
   \<and> (let s3 = run toString ([Load True, StartTimer task_A] @ replicate 10 (Tick 1) @ [PauseTimer])
                  (initial (Some [task_A, task_B]))
      in realTime task_A = Num 5 \<and> tasks s3 = [paused_A, task_B] \<and>
         remainingTime paused_A = Some (Num 290) \<and>
         map_option remainingTime (activeTask (startTimer paused_A s3)) = Some (Some (Num 290)))"
proof -
  have "\<not> another_active task s \<and> remainingTime task = Some (Num r) \<and> r \<noteq> 0 \<longrightarrow>
      activeTask (startTimer task s) =
        Some (task\<lparr>isRunning := Some True, isPaused := Some False,
                   remainingTime := Some (Num r)\<rparr>)"
    by (simp add: startTimer_def remaining_or_def Let_def)
  moreover have "\<not> another_active task s \<and> remainingTime task = None \<and>
      finite_product (realTime task) (Num 60) \<longrightarrow>
      activeTask (startTimer task s) =
        Some (task\<lparr>isRunning := Some True, isPaused := Some False,
                   remainingTime := Some (num_mul (realTime task) (Num 60))\<rparr>)"
    by (simp add: startTimer_def remaining_or_def Let_def)
  moreover have "realTime task_A = Num 5" "remainingTime paused_A = Some (Num 290)"
    by (simp_all add: task_A_def paused_A_def)
  moreover have
    "map_option remainingTime
       (activeTask (startTimer paused_A
          ((initial (Some [task_A, task_B]))
             \<lparr>tasks := [paused_A, task_B], activeTask := Some paused_A, timer := None,
              intervals := [], nextInterval := 2\<rparr>))) = Some (Some (Num 290))"
    by code_simp
  ultimately show ?thesis
    unfolding paused_after_ten_ticks by simp
qed

text \<open>Resuming the paused task, and starting the fresh one.\<close>

theorem startTimer_resume_contract_witness:
  "\<not> another_active paused_A
       ((initial (Some [task_A, task_B]))
          \<lparr>tasks := [paused_A, task_B], activeTask := Some paused_A\<rparr>)
   \<and> remainingTime paused_A = Some (Num 290)
   \<and> activeTask (startTimer paused_A
        ((initial (Some [task_A, task_B]))
           \<lparr>tasks := [paused_A, task_B], activeTask := Some paused_A\<rparr>)) =
     Some (paused_A\<lparr>isRunning := Some True, isPaused := Some False,
                    remainingTime := Some (Num 290)\<rparr>)
   \<and> \<not> another_active task_A loaded_AB
   \<and> remainingTime task_A = None
   \<and> finite_product (realTime task_A) (Num 60)
   \<and> activeTask (startTimer task_A loaded_AB) =
     Some (task_A\<lparr>isRunning := Some True, isPaused := Some False,
                  remainingTime := Some (Num 300)\<rparr>)"
proof -
  have a: "\<not> another_active paused_A
       ((initial (Some [task_A, task_B]))
          \<lparr>tasks := [paused_A, task_B], activeTask := Some paused_A\<rparr>)"
    by (simp add: another_active_def)
  have b: "remainingTime paused_A = Some (Num 290)"
    by (simp add: paused_A_def)
  have c: "\<not> another_active task_A loaded_AB"
    by (simp add: another_active_def loaded_AB_eq initial_def)
  have d: "remainingTime task_A = None"
    by (simp add: task_A_def)
  have h: "finite_product (realTime task_A) (Num 60)"
    by (simp add: task_A_def finite_product_def)
  note t = startTimer_resume_contract
  from t [of paused_A "(initial (Some [task_A, task_B]))
          \<lparr>tasks := [paused_A, task_B], activeTask := Some paused_A\<rparr>" 290, THEN conjunct1] a b
  have e: "activeTask (startTimer paused_A
        ((initial (Some [task_A, task_B]))
           \<lparr>tasks := [paused_A, task_B], activeTask := Some paused_A\<rparr>)) =
     Some (paused_A\<lparr>isRunning := Some True, isPaused := Some False,
                    remainingTime := Some (Num 290)\<rparr>)"
    by simp
  have g: "round_double 300 = 300"
    by code_simp
  from t [of task_A loaded_AB, THEN conjunct2, THEN conjunct1] c d h
  have f: "activeTask (startTimer task_A loaded_AB) =
     Some (task_A\<lparr>isRunning := Some True, isPaused := Some False,
                  remainingTime := Some (Num 300)\<rparr>)"
    by (simp add: task_A_def g)
  from a b e c d h f show ?thesis by (intro conjI)
qed

subsection \<open>Ticking\<close>



subsection \<open>Stopping\<close>

lemma map_replace_idem:
  "task_id u = k \<Longrightarrow>
   map (\<lambda>t. if task_id t = k then u else t) (map (\<lambda>t. if task_id t = k then u else t) ts) =
   map (\<lambda>t. if task_id t = k then u else t) ts"
  by (induction ts) auto

lemma pauseTimer_idem: "pauseTimer (pauseTimer s) = pauseTimer s"
  by (cases "timer s"; cases "activeTask s")
     (simp_all add: pauseTimer_def stop_timer_def clearInterval_def Let_def map_replace_idem)

lemma resetTimer_idem: "resetTimer (resetTimer s) = resetTimer s"
  by (cases "timer s"; cases "activeTask s")
     (simp_all add: resetTimer_def stop_timer_def clearInterval_def Let_def)

lemma clearInterval_not_alive: "h \<notin> fst ` set (intervals s) \<Longrightarrow> clearInterval h s = s"
proof -
  assume "h \<notin> fst ` set (intervals s)"
  then have "\<forall>x\<in>set (intervals s). case x of (h', c) \<Rightarrow> h' \<noteq> h"
    by force
  then have "filter (\<lambda>(h', c). h' \<noteq> h) (intervals s) = intervals s"
    by (simp add: filter_id_conv)
  then show ?thesis by (simp add: clearInterval_def)
qed

text \<open>Every state the component reaches keeps an active task beside a stored handle.\<close>

lemma step_handle_has_task:
  "handle_has_task s \<Longrightarrow> handle_has_task (step toString e s)"
  by (cases e)
    (auto simp: handle_has_task_def loadTasks_def show_alert_def handleAddTask_def onPress_add_def
      saveTasks_def handleEditTask_def handleCancelEdit_def handleDeleteTask_def Let_def
      startTimer_def pauseTimer_def resetTimer_def stop_timer_def clearInterval_def tick_def
      split: option.splits if_splits)

lemma run_handle_has_task:
  "handle_has_task s \<Longrightarrow> handle_has_task (run toString es s)"
  by (induction es arbitrary: s) (auto simp: step_handle_has_task)

lemma initial_handle_has_task: "handle_has_task (initial stored)"
  by (simp add: handle_has_task_def initial_def)

lemma resetTimer_idle:
  "handle_has_task s \<Longrightarrow> activeTask s = None \<Longrightarrow> resetTimer s = s"
  by (simp add: handle_has_task_def resetTimer_def stop_timer_def)

text \<open>
  C6. \<^verbatim>\<open>pauseTimer\<close> called twice leaves the state the first call left, and so does
  \<^verbatim>\<open>resetTimer\<close>; in every state the component reaches from its initial state,
  \<^verbatim>\<open>resetTimer\<close> with no active task changes nothing; with no stored handle neither of
  the two cancels anything; and cancelling a handle that is not alive changes nothing.
\<close>

theorem stopping_idempotent:
  "pauseTimer (pauseTimer s) = pauseTimer s
   \<and> resetTimer (resetTimer s) = resetTimer s
   \<and> (activeTask (run toString es (initial stored)) = None \<longrightarrow>
        resetTimer (run toString es (initial stored)) = run toString es (initial stored))
   \<and> (timer s = None \<longrightarrow>
        intervals (pauseTimer s) = intervals s \<and> intervals (resetTimer s) = intervals s \<and>
        timer (pauseTimer s) = None \<and> timer (resetTimer s) = None)
   \<and> (h \<notin> fst ` set (intervals s) \<longrightarrow> clearInterval h s = s)"
proof -
  have "activeTask (run toString es (initial stored)) = None \<longrightarrow>
        resetTimer (run toString es (initial stored)) = run toString es (initial stored)"
    using resetTimer_idle [OF run_handle_has_task [OF initial_handle_has_task]] by blast
  moreover have "timer s = None \<longrightarrow>
        intervals (pauseTimer s) = intervals s \<and> intervals (resetTimer s) = intervals s \<and>
        timer (pauseTimer s) = None \<and> timer (resetTimer s) = None"
    by (simp add: pauseTimer_def resetTimer_def stop_timer_def Let_def split: option.splits)
  ultimately show ?thesis
    using pauseTimer_idem resetTimer_idem clearInterval_not_alive by blast
qed

theorem stopping_idempotent_witness:
  "activeTask (run (\<lambda>n. []) [Load True, StartTimer task_A, Tick 1, ResetTimer]
      (initial (Some [task_A, task_B]))) = None
   \<and> resetTimer (run (\<lambda>n. []) [Load True, StartTimer task_A, Tick 1, ResetTimer]
        (initial (Some [task_A, task_B]))) =
      run (\<lambda>n. []) [Load True, StartTimer task_A, Tick 1, ResetTimer]
        (initial (Some [task_A, task_B]))
   \<and> timer loaded_AB = None
   \<and> intervals (pauseTimer loaded_AB) = intervals loaded_AB
   \<and> 7 \<notin> fst ` set (intervals loaded_AB)
   \<and> clearInterval 7 loaded_AB = loaded_AB"
proof -
  have a: "activeTask (run (\<lambda>n. []) [Load True, StartTimer task_A, Tick 1, ResetTimer]
      (initial (Some [task_A, task_B]))) = None"
    by code_simp
  have b: "timer loaded_AB = None"
    by (simp add: loaded_AB_eq initial_def)
  have c: "7 \<notin> fst ` set (intervals loaded_AB)"
    by (simp add: loaded_AB_eq initial_def)
  note t = stopping_idempotent
    [of loaded_AB "\<lambda>n. []" "[Load True, StartTimer task_A, Tick 1, ResetTimer]"
        "Some [task_A, task_B]" 7]
  from t a have
    "resetTimer (run (\<lambda>n. []) [Load True, StartTimer task_A, Tick 1, ResetTimer]
        (initial (Some [task_A, task_B]))) =
      run (\<lambda>n. []) [Load True, StartTimer task_A, Tick 1, ResetTimer]
        (initial (Some [task_A, task_B]))"
    by blast
  moreover from t b have "intervals (pauseTimer loaded_AB) = intervals loaded_AB"
    by blast
  moreover from t c have "clearInterval 7 loaded_AB = loaded_AB"
    by blast
  ultimately show ?thesis using a b c by (intro conjI)
qed

subsection \<open>One timer at a time\<close>

lemma single_tick_cases:
  "single_tick s \<longleftrightarrow>
     (intervals s = [] \<and> timer s = None) \<or>
     (\<exists>h c a. intervals s = [(h, c)] \<and> timer s = Some h \<and> activeTask s = Some a \<and>
        isPaused a \<noteq> Some True)"
  by (auto simp: single_tick_def split: list.splits option.splits)

lemma step_single_tick:
  "single_tick s \<Longrightarrow> \<not> restarts_running e s \<Longrightarrow> single_tick (step toString e s)"
proof (cases e)
  case (StartTimer task)
  assume "single_tick s" "\<not> restarts_running e s"
  then show ?thesis unfolding StartTimer single_tick_cases
    by (auto simp: startTimer_def another_active_def show_alert_def Let_def
        split: option.splits)
next
  case PauseTimer
  assume "single_tick s"
  then show ?thesis unfolding PauseTimer single_tick_cases
    by (auto simp: pauseTimer_def stop_timer_def clearInterval_def Let_def split: option.splits)
next
  case ResetTimer
  assume "single_tick s"
  then show ?thesis unfolding ResetTimer single_tick_cases
    by (auto simp: resetTimer_def stop_timer_def clearInterval_def Let_def split: option.splits)
next
  case (Tick h)
  assume "single_tick s"
  then show ?thesis unfolding Tick single_tick_cases
    by (auto simp: tick_def clearInterval_def show_alert_def Let_def
        split: option.splits if_splits)
qed (auto simp: single_tick_cases loadTasks_def show_alert_def handleAddTask_def onPress_add_def
      saveTasks_def handleEditTask_def handleCancelEdit_def handleDeleteTask_def Let_def
      split: option.splits)

lemma run_single_tick:
  "single_tick s \<Longrightarrow> never_restarts toString es s \<Longrightarrow> single_tick (run toString es s)"
  by (induction es arbitrary: s) (auto simp: step_single_tick)

lemma initial_single_tick: "single_tick (initial stored)"
  by (simp add: single_tick_def initial_def)

lemma single_tick_length:
  "single_tick s \<Longrightarrow>
     length (intervals s) \<le> 1 \<and>
     map fst (intervals s) = (case timer s of None \<Rightarrow> [] | Some h \<Rightarrow> [h])"
  by (auto simp: single_tick_cases)

text \<open>
  C7 as stated fails: \<^verbatim>\<open>startTimer\<close> on the task that is already the running active
  task cancels nothing and leaves two timers alive.
\<close>

theorem startTimer_twice_counterexample:
  "activeTask started_A = Some running_A
   \<and> intervals started_A = [(1, [task_A, task_B])]
   \<and> intervals (startTimer running_A started_A) =
       [(1, [task_A, task_B]), (2, [running_A, task_B])]
   \<and> length (intervals (startTimer running_A started_A)) = 2"
  by code_simp

lemma run_append: "run toString (es @ [e]) s = step toString e (run toString es s)"
  by (induction es arbitrary: s) auto

lemma never_restarts_append:
  "never_restarts toString (es @ [e]) s \<longleftrightarrow>
     never_restarts toString es s \<and> \<not> restarts_running e (run toString es s)"
  by (induction es arbitrary: s) auto

lemma accepted_start_finds_none_alive:
  "single_tick s \<Longrightarrow> \<not> restarts_running (StartTimer task) s \<Longrightarrow> \<not> another_active task s \<Longrightarrow>
     intervals s = []"
  by (auto simp: single_tick_cases another_active_def)

text \<open>
  C7, amended. In every sequence of events from the initial state in which
  \<^verbatim>\<open>startTimer\<close> is never called on the active task while that task is running and not
  paused, at most one timer is alive at any time, and it is the one whose handle is
  stored; and in such a sequence every call of \<^verbatim>\<open>startTimer\<close> that creates a timer
  finds none alive, so that the new one is the only one.
\<close>

theorem single_timer_without_restart:
  "(never_restarts toString es (initial stored) \<longrightarrow>
      length (intervals (run toString es (initial stored))) \<le> 1 \<and>
      map fst (intervals (run toString es (initial stored))) =
        (case timer (run toString es (initial stored)) of None \<Rightarrow> [] | Some h \<Rightarrow> [h]))
   \<and> (never_restarts toString (es @ [StartTimer task]) (initial stored) \<and>
      \<not> another_active task (run toString es (initial stored)) \<longrightarrow>
        intervals (run toString es (initial stored)) = [] \<and>
        intervals (run toString (es @ [StartTimer task]) (initial stored)) =
          [(nextInterval (run toString es (initial stored)),
            tasks (run toString es (initial stored)))])"
proof -
  have "never_restarts toString es (initial stored) \<longrightarrow>
        length (intervals (run toString es (initial stored))) \<le> 1 \<and>
        map fst (intervals (run toString es (initial stored))) =
          (case timer (run toString es (initial stored)) of None \<Rightarrow> [] | Some h \<Rightarrow> [h])"
    using single_tick_length [OF run_single_tick [OF initial_single_tick]] by blast
  moreover have "intervals (run toString es (initial stored)) = [] \<and>
        intervals (run toString (es @ [StartTimer task]) (initial stored)) =
          [(nextInterval (run toString es (initial stored)),
            tasks (run toString es (initial stored)))]"
    if g: "never_restarts toString (es @ [StartTimer task]) (initial stored)"
      and acc: "\<not> another_active task (run toString es (initial stored))"
  proof -
    from g have g1: "never_restarts toString es (initial stored)"
      and g2: "\<not> restarts_running (StartTimer task) (run toString es (initial stored))"
      by (simp_all add: never_restarts_append)
    have "single_tick (run toString es (initial stored))"
      by (rule run_single_tick [OF initial_single_tick g1])
    then have none: "intervals (run toString es (initial stored)) = []"
      using g2 acc by (rule accepted_start_finds_none_alive)
    with acc show ?thesis
      by (simp add: run_append startTimer_def Let_def)
  qed
  ultimately show ?thesis by blast
qed

theorem single_timer_without_restart_witness:
  "never_restarts (\<lambda>n. [])
     ([Load True, StartTimer task_A, Tick 1, PauseTimer] @
      [StartTimer (running_A\<lparr>isPaused := Some True, remainingTime := Some (Num 299)\<rparr>)])
     (initial (Some [task_A, task_B]))
   \<and> \<not> another_active (running_A\<lparr>isPaused := Some True, remainingTime := Some (Num 299)\<rparr>)
        (run (\<lambda>n. []) [Load True, StartTimer task_A, Tick 1, PauseTimer]
           (initial (Some [task_A, task_B])))
   \<and> intervals (run (\<lambda>n. []) [Load True, StartTimer task_A, Tick 1, PauseTimer]
        (initial (Some [task_A, task_B]))) = []
   \<and> length (intervals (run (\<lambda>n. [])
        ([Load True, StartTimer task_A, Tick 1, PauseTimer] @
         [StartTimer (running_A\<lparr>isPaused := Some True, remainingTime := Some (Num 299)\<rparr>)])
        (initial (Some [task_A, task_B])))) \<le> 1"
proof -
  have a: "never_restarts (\<lambda>n. [])
     ([Load True, StartTimer task_A, Tick 1, PauseTimer] @
      [StartTimer (running_A\<lparr>isPaused := Some True, remainingTime := Some (Num 299)\<rparr>)])
     (initial (Some [task_A, task_B]))"
    by code_simp
  have b: "\<not> another_active (running_A\<lparr>isPaused := Some True, remainingTime := Some (Num 299)\<rparr>)
        (run (\<lambda>n. []) [Load True, StartTimer task_A, Tick 1, PauseTimer]
           (initial (Some [task_A, task_B])))"
    by code_simp
  note t = single_timer_without_restart
    [of "\<lambda>n. []" _ "Some [task_A, task_B]"]
  from t [of "[Load True, StartTimer task_A, Tick 1, PauseTimer]"
        "running_A\<lparr>isPaused := Some True, remainingTime := Some (Num 299)\<rparr>",
        THEN conjunct2] a b
  have c: "intervals (run (\<lambda>n. []) [Load True, StartTimer task_A, Tick 1, PauseTimer]
        (initial (Some [task_A, task_B]))) = []"
    by blast
  from t [of "[Load True, StartTimer task_A, Tick 1, PauseTimer] @
         [StartTimer (running_A\<lparr>isPaused := Some True, remainingTime := Some (Num 299)\<rparr>)]"
        task_A, THEN conjunct1] a
  have d: "length (intervals (run (\<lambda>n. [])
        ([Load True, StartTimer task_A, Tick 1, PauseTimer] @
         [StartTimer (running_A\<lparr>isPaused := Some True, remainingTime := Some (Num 299)\<rparr>)])
        (initial (Some [task_A, task_B])))) \<le> 1"
    by blast
  from a b c d show ?thesis by (intro conjI)
qed

subsection \<open>Adding and deleting\<close>

text \<open>
  C8 as stated fails for a text that is not empty and not numeric: with the name
  \<^verbatim>\<open>Write report\<close> and the time \<^verbatim>\<open>abc\<close> no input error is reported, the estimation
  service is called with \<^verbatim>\<open>NaN\<close> minutes and the confirmation prompt is shown.
\<close>

theorem handleAddTask_non_numeric_counterexample:
  "trim ''Write report'' \<noteq> [] \<and> trim ''abc'' \<noteq> [] \<and> parseInt ''abc'' = NaN
   \<and> handleAddTask \<lparr>est_realTime = Num 30, est_explanation = ''ok''\<rparr>
        ((initial None)\<lparr>taskName := ''Write report'', estimatedTimeText := ''abc''\<rparr>) =
      ((initial None)
         \<lparr>taskName := ''Write report'', estimatedTimeText := ''abc'',
          alerts := [EstimatePrompt NaN (Num 30) ''ok''],
          estimateCalls := [(''Write report'', NaN)]\<rparr>,
       Some \<lparr>p_tasks = [], p_editingTask = None, p_taskName = ''Write report'',
             p_estimatedMinutes = NaN,
             p_result = \<lparr>est_realTime = Num 30, est_explanation = ''ok''\<rparr>\<rparr>)"
  by code_simp

text \<open>
  C8, amended. When the task name is empty after trimming, or the text of the estimated
  time is empty after trimming, \<^verbatim>\<open>handleAddTask\<close> reports the input error and stops:
  the estimation service is not called, no prompt is pending, and the task list, the
  task being edited, the input fields and the storage are as before.
\<close>

theorem handleAddTask_input_missing:
  assumes "trim (taskName s) = [] \<or> trim (estimatedTimeText s) = []"
  shows "handleAddTask result s = (s\<lparr>alerts := alerts s @ [InputMissing]\<rparr>, None)
     \<and> estimateCalls (fst (handleAddTask result s)) = estimateCalls s
     \<and> tasks (fst (handleAddTask result s)) = tasks s
     \<and> editingTask (fst (handleAddTask result s)) = editingTask s
     \<and> storage (fst (handleAddTask result s)) = storage s"
  using assms by (auto simp: handleAddTask_def show_alert_def)

text \<open>
  A name that consists of an ideographic space (U+3000) and a space is empty after
  trimming.
\<close>

theorem handleAddTask_input_missing_witness:
  "(trim (taskName ((initial None)\<lparr>taskName := [CHR 0xE3, CHR 0x80, CHR 0x80, CHR 0x20],
                                    estimatedTimeText := ''60''\<rparr>)) = [] \<or>
    trim (estimatedTimeText
            ((initial None)\<lparr>taskName := [CHR 0xE3, CHR 0x80, CHR 0x80, CHR 0x20],
                             estimatedTimeText := ''60''\<rparr>)) = [])
   \<and> handleAddTask \<lparr>est_realTime = Num 72, est_explanation = ''ok''\<rparr>
        ((initial None)\<lparr>taskName := [CHR 0xE3, CHR 0x80, CHR 0x80, CHR 0x20],
                         estimatedTimeText := ''60''\<rparr>) =
      (((initial None)\<lparr>taskName := [CHR 0xE3, CHR 0x80, CHR 0x80, CHR 0x20],
                         estimatedTimeText := ''60''\<rparr>)
         \<lparr>alerts := alerts ((initial None)\<lparr>taskName := [CHR 0xE3, CHR 0x80, CHR 0x80, CHR 0x20],
                                             estimatedTimeText := ''60''\<rparr>)
                      @ [InputMissing]\<rparr>,
       None)"
proof -
  have a: "trim (taskName ((initial None)\<lparr>taskName := [CHR 0xE3, CHR 0x80, CHR 0x80, CHR 0x20],
                                    estimatedTimeText := ''60''\<rparr>)) = [] \<or>
    trim (estimatedTimeText
            ((initial None)\<lparr>taskName := [CHR 0xE3, CHR 0x80, CHR 0x80, CHR 0x20],
                             estimatedTimeText := ''60''\<rparr>)) = []"
    by code_simp
  from handleAddTask_input_missing [OF a, THEN conjunct1] a
  show ?thesis by (intro conjI)
qed

text \<open>
  C10. \<^verbatim>\<open>handleDeleteTask\<close> keeps, in their order and unchanged, exactly the tasks whose
  id is not the given one, and writes the whole new list to storage (when the write
  fails, the failure alert is shown instead); it leaves the active task, the stored
  handle and the timers alive as they were, also when the active task is the one
  deleted, which is then no longer in the list.
\<close>

theorem handleDeleteTask_frame:
  "handleDeleteTask taskId write_ok s =
     (if write_ok
      then s\<lparr>tasks := filter (\<lambda>task. task_id task \<noteq> taskId) (tasks s),
             storage := Some (filter (\<lambda>task. task_id task \<noteq> taskId) (tasks s))\<rparr>
      else s\<lparr>tasks := filter (\<lambda>task. task_id task \<noteq> taskId) (tasks s),
             alerts := alerts s @ [SaveFailed]\<rparr>)
   \<and> tasks (handleDeleteTask taskId write_ok s) =
       filter (\<lambda>task. task_id task \<noteq> taskId) (tasks s)
   \<and> activeTask (handleDeleteTask taskId write_ok s) = activeTask s
   \<and> timer (handleDeleteTask taskId write_ok s) = timer s
   \<and> intervals (handleDeleteTask taskId write_ok s) = intervals s
   \<and> taskId \<notin> task_id ` set (tasks (handleDeleteTask taskId write_ok s))"
  by (auto simp: handleDeleteTask_def saveTasks_def show_alert_def Let_def)

text \<open>Deleting the running active task: it stays active and its timer stays alive.\<close>

theorem handleDeleteTask_frame_witness:
  "task_id running_A = ''1''
   \<and> handleDeleteTask ''1'' True started_A =
       started_A\<lparr>tasks := [task_B], storage := Some [task_B]\<rparr>
   \<and> activeTask (handleDeleteTask ''1'' True started_A) = Some running_A
   \<and> timer (handleDeleteTask ''1'' True started_A) = Some 1
   \<and> intervals (handleDeleteTask ''1'' True started_A) = [(1, [task_A, task_B])]"
proof -
  note t = handleDeleteTask_frame [of "''1''" True started_A]
  have f: "filter (\<lambda>task. task_id task \<noteq> ''1'') (tasks started_A) = [task_B]"
    by (simp add: started_A_fields running_A_def task_A_def task_B_def)
  have "task_id running_A = ''1''"
    by (simp add: running_A_def task_A_def)
  moreover from t f have "handleDeleteTask ''1'' True started_A =
       started_A\<lparr>tasks := [task_B], storage := Some [task_B]\<rparr>"
    by simp
  moreover from t have "activeTask (handleDeleteTask ''1'' True started_A) = Some running_A"
    by (simp add: started_A_fields)
  moreover from t have "timer (handleDeleteTask ''1'' True started_A) = Some 1"
    by (simp add: started_A_fields)
  moreover from t have
    "intervals (handleDeleteTask ''1'' True started_A) = [(1, [task_A, task_B])]"
    by (simp add: started_A_fields)
  ultimately show ?thesis by (intro conjI)
qed

end
